theory Spec2Isabelle
  imports Main
begin

section \<open>Values exchanged with the auth and data client\<close>

text \<open>
  The components talk to one shared client handle (\<^verbatim>\<open>supabase\<close>). What the source reads
  from its answers is modelled here: a user with \<^verbatim>\<open>id\<close> and \<^verbatim>\<open>email\<close>, a session whose
  \<^verbatim>\<open>user\<close> may be missing (the source guards it with \<^verbatim>\<open>session?.user ?? null\<close>), and
  an error object read through \<^verbatim>\<open>message\<close>. JavaScript's \<^verbatim>\<open>null\<close>/\<^verbatim>\<open>undefined\<close> is
  \<open>None\<close>.
\<close>

record user =
  user_id :: string
  user_email :: string

record session =
  session_user :: "user option"

record auth_error =
  message :: string

text \<open>
  An awaited call either resolves to a response object or rejects with a thrown error;
  both are caught by the \<^verbatim>\<open>try\<close>/\<^verbatim>\<open>catch\<close> of the handler that awaits it.
\<close>

datatype 'a promise = Resolved 'a | Rejected auth_error

text \<open>The response objects, with the fields the handlers destructure.\<close>

record signUp_response =
  signUp_user :: "user option"
  signUp_error :: "auth_error option"

record insert_response =
  insert_error :: "auth_error option"

record signIn_response =
  signIn_error :: "auth_error option"

record getUser_response =
  getUser_user :: "user option"

record signOut_response =
  signOut_error :: "auth_error option"

section \<open>Effects of the handlers\<close>

text \<open>
  The argument of \<^verbatim>\<open>supabase.auth.signUp\<close> and the row handed to
  \<^verbatim>\<open>supabase.from('profiles').insert\<close>. Fields read from the form object are optional:
  a property the object lacks reads as \<^verbatim>\<open>undefined\<close>.
\<close>

record signUp_args =
  su_email :: "string option"
  su_password :: "string option"
  su_display_name :: "string option"
  su_phone :: "string option"

record profile_row =
  row_id :: string
  row_display_name :: "string option"
  row_email :: "string option"
  row_phone :: "string option"

record toast_message =
  severity :: string
  summary :: string
  detail :: string
  life :: nat

text \<open>
  Every call that leaves a component, in the order it is made. \<open>Navigate\<close> is the imperative
  \<^verbatim>\<open>navigate(path, {state: {message}})\<close>; \<open>Call_select\<close> is the client's table-select
  operation, which no component of the source calls.
\<close>

datatype effect =
    Call_getSession
  | Call_onAuthStateChange
  | Call_unsubscribe
  | Call_getUser
  | Call_signUp signUp_args
  | Call_insert string "profile_row list"
  | Call_select string string string
  | Call_signInWithPassword string string
  | Call_signOut
  | Navigate string "string option"
  | Toast_show toast_message
  | Console_error string string

section \<open>Register.jsx\<close>

text \<open>
  The component state: the form object (a JavaScript object, so a map from property names
  to values), the loading flag and the error text.
\<close>

record register_state =
  formData :: "string \<rightharpoonup> string"
  reg_loading :: bool
  reg_error :: "string option"

definition Register_initial :: register_state where
  "Register_initial =
     \<lparr>formData = [''displayName'' \<mapsto> [], ''email'' \<mapsto> [], ''password'' \<mapsto> [], ''phone'' \<mapsto> []],
      reg_loading = False,
      reg_error = None\<rparr>"

text \<open>
  \<^verbatim>\<open>setFormData(prev => ({...prev, [name]: value}))\<close>: a copy of the previous object with
  the property \<^verbatim>\<open>name\<close> set, whatever \<^verbatim>\<open>name\<close> is.
\<close>

definition handleChange :: "string \<Rightarrow> string \<Rightarrow> register_state \<Rightarrow> register_state" where
  "handleChange name val st = st\<lparr>formData := (formData st)(name \<mapsto> val)\<rparr>"

text \<open>
  The success text passed to the login view. Its one non-ASCII letter (o with acute accent)
  is written by its code unit.
\<close>

definition registration_success_message :: string where
  "registration_success_message =
     ''Registro exitoso. Por favor, verifica tu correo electr'' @ [CHR 0xF3] @
     ''nico para activar tu cuenta.''"

text \<open>
  Reading \<^verbatim>\<open>user.id\<close> when sign-up answered without error and without user throws a
  TypeError, which the handler's \<^verbatim>\<open>catch\<close> receives like any other error. The text is
  the engine's (V8 shown).
\<close>

definition TypeError_null_id :: auth_error where
  "TypeError_null_id =
     \<lparr>message = ''Cannot read properties of null (reading '' @ [CHR 0x27] @ ''id'' @ [CHR 0x27] @ '')''\<rparr>"

text \<open>
  \<^verbatim>\<open>handleSubmit\<close> of the registration form. The two awaited answers are parameters; the
  second is looked at only when the insert is issued. The result is the component state
  after \<^verbatim>\<open>finally\<close> and the calls made, in order.
\<close>

definition Register_caught ::
    "register_state \<Rightarrow> auth_error \<Rightarrow> effect list \<Rightarrow> register_state \<times> effect list" where
  "Register_caught st err effs =
     (st\<lparr>reg_error := Some (message err), reg_loading := False\<rparr>, effs)"

definition Register_handleSubmit ::
    "register_state \<Rightarrow> signUp_response promise \<Rightarrow> insert_response promise
       \<Rightarrow> register_state \<times> effect list" where
  "Register_handleSubmit st signUp_result insert_result =
     (let fd = formData st;
          st1 = st\<lparr>reg_loading := True, reg_error := None\<rparr>;
          call1 = Call_signUp
                    \<lparr>su_email = fd ''email'', su_password = fd ''password'',
                     su_display_name = fd ''displayName'', su_phone = fd ''phone''\<rparr>
      in case signUp_result of
           Rejected err \<Rightarrow> Register_caught st1 err [call1]
         | Resolved r \<Rightarrow>
             (case signUp_error r of
                Some signUpError \<Rightarrow> Register_caught st1 signUpError [call1]
              | None \<Rightarrow>
                  (case signUp_user r of
                     None \<Rightarrow> Register_caught st1 TypeError_null_id [call1]
                   | Some u \<Rightarrow>
                       (let call2 = Call_insert ''profiles''
                                      [\<lparr>row_id = user_id u, row_display_name = fd ''displayName'',
                                        row_email = fd ''email'', row_phone = fd ''phone''\<rparr>]
                        in case insert_result of
                             Rejected err \<Rightarrow> Register_caught st1 err [call1, call2]
                           | Resolved ir \<Rightarrow>
                               (case insert_error ir of
                                  Some profileError \<Rightarrow>
                                    Register_caught st1 profileError [call1, call2]
                                | None \<Rightarrow>
                                    (st1\<lparr>reg_loading := False\<rparr>,
                                     [call1, call2,
                                      Navigate ''/login'' (Some registration_success_message)]))))))"

text \<open>The link under the registration form: \<^verbatim>\<open>onClick={() => navigate('/login')}\<close>.\<close>

definition Register_login_link :: "effect list" where
  "Register_login_link = [Navigate ''/login'' None]"

text \<open>
  The error banner of the registration view: \<^verbatim>\<open>{error && <Message text={error} />}\<close>.
  The empty string is falsy, so an empty error text shows no banner.
\<close>

definition Register_error_banner :: "register_state \<Rightarrow> string option" where
  "Register_error_banner st =
     (case reg_error st of None \<Rightarrow> None | Some m \<Rightarrow> if m = [] then None else Some m)"

section \<open>Login.jsx\<close>

record login_state =
  login_email :: string
  login_password :: string
  login_loading :: bool

definition Login_initial :: login_state where
  "Login_initial = \<lparr>login_email = [], login_password = [], login_loading = False\<rparr>"

definition Login_setEmail :: "string \<Rightarrow> login_state \<Rightarrow> login_state" where
  "Login_setEmail v st = st\<lparr>login_email := v\<rparr>"

definition Login_setPassword :: "string \<Rightarrow> login_state \<Rightarrow> login_state" where
  "Login_setPassword v st = st\<lparr>login_password := v\<rparr>"

text \<open>The toast of the \<^verbatim>\<open>catch\<close> branch; \<^verbatim>\<open>life: 3000\<close> makes it disappear again.\<close>

definition Login_error_toast :: "auth_error \<Rightarrow> effect" where
  "Login_error_toast err =
     Toast_show \<lparr>severity = ''error'', summary = ''Error'', detail = message err, life = 3000\<rparr>"

text \<open>
  \<^verbatim>\<open>handleSubmit\<close> of the login form: one sign-in call, a toast when it answers with
  an error or rejects, and nothing else; the loading flag is cleared in \<^verbatim>\<open>finally\<close>.
\<close>

definition Login_handleSubmit ::
    "login_state \<Rightarrow> signIn_response promise \<Rightarrow> login_state \<times> effect list" where
  "Login_handleSubmit st signIn_result =
     (let call1 = Call_signInWithPassword (login_email st) (login_password st);
          st' = st\<lparr>login_loading := False\<rparr>
      in case signIn_result of
           Rejected err \<Rightarrow> (st', [call1, Login_error_toast err])
         | Resolved r \<Rightarrow>
             (case signIn_error r of
                Some err \<Rightarrow> (st', [call1, Login_error_toast err])
              | None \<Rightarrow> (st', [call1])))"

text \<open>The link under the login form: \<^verbatim>\<open>onClick={() => navigate('/register')}\<close>.\<close>

definition Login_register_link :: "effect list" where
  "Login_register_link = [Navigate ''/register'' None]"

section \<open>Dashboard.jsx\<close>

text \<open>The only state of the dashboard is its own copy of the auth user.\<close>

record dashboard_state =
  dash_user :: "user option"

definition Dashboard_initial :: dashboard_state where
  "Dashboard_initial = \<lparr>dash_user = None\<rparr>"

text \<open>
  The mount effect: \<^verbatim>\<open>getUser\<close> awaits \<^verbatim>\<open>supabase.auth.getUser()\<close> and stores the user
  of the answer. A rejection is not caught and leaves the state as it was.
\<close>

definition Dashboard_getUser ::
    "dashboard_state \<Rightarrow> getUser_response promise \<Rightarrow> dashboard_state \<times> effect list" where
  "Dashboard_getUser st getUser_result =
     (case getUser_result of
        Resolved r \<Rightarrow> (st\<lparr>dash_user := getUser_user r\<rparr>, [Call_getUser])
      | Rejected err \<Rightarrow> (st, [Call_getUser]))"

text \<open>
  \<^verbatim>\<open>handleLogout\<close>: the sign-out call; its answer is not inspected, a rejection is logged.
\<close>

definition Dashboard_handleLogout :: "signOut_response promise \<Rightarrow> effect list" where
  "Dashboard_handleLogout signOut_result =
     (case signOut_result of
        Resolved r \<Rightarrow> [Call_signOut]
      | Rejected err \<Rightarrow>
          [Call_signOut,
           Console_error (''Error al cerrar sesi'' @ [CHR 0xF3] @ ''n:'') (message err)])"

section \<open>App.jsx: routing\<close>

datatype view = Login_view | Register_view | Dashboard_view

text \<open>
  What a route's element evaluates to: a \<^verbatim>\<open><Navigate to=... replace />\<close>, one of the three
  views, or nothing when no route matches. \<^verbatim>\<open>Login\<close> and \<^verbatim>\<open>Dashboard\<close> declare no
  parameters, so the props handed to them (\<^verbatim>\<open>onLogin\<close>, \<^verbatim>\<open>user\<close>, \<^verbatim>\<open>onLogout\<close>) are never
  read and a view is named without them.
\<close>

datatype element = Navigate_to string | Render view | No_match

definition ProtectedRoute :: "user option \<Rightarrow> element \<Rightarrow> element" where
  "ProtectedRoute u children =
     (case u of None \<Rightarrow> Navigate_to ''/login'' | Some x \<Rightarrow> children)"

text \<open>The route table of \<^verbatim>\<open>App\<close>, its four paths compared literally.\<close>

definition App_Routes :: "string \<Rightarrow> user option \<Rightarrow> element" where
  "App_Routes path u =
     (if path = ''/login'' then
        (case u of Some x \<Rightarrow> Navigate_to ''/dashboard'' | None \<Rightarrow> Render Login_view)
      else if path = ''/register'' then
        (case u of Some x \<Rightarrow> Navigate_to ''/dashboard'' | None \<Rightarrow> Render Register_view)
      else if path = ''/dashboard'' then ProtectedRoute u (Render Dashboard_view)
      else if path = ''/'' then
        Navigate_to (case u of Some x \<Rightarrow> ''/dashboard'' | None \<Rightarrow> ''/login'')
      else No_match)"

definition is_Render :: "element \<Rightarrow> bool" where
  "is_Render e = (case e of Render v \<Rightarrow> True | Navigate_to p \<Rightarrow> False | No_match \<Rightarrow> False)"

text \<open>
  The second effect of \<^verbatim>\<open>App\<close>, run when the user state changes: on the root path it
  navigates by hand. It reads the location, which the events below do not follow, and is
  kept apart from them.
\<close>

definition App_root_effect :: "string \<Rightarrow> user option \<Rightarrow> effect list" where
  "App_root_effect pathname u =
     (if pathname = ''/'' then
        (case u of Some x \<Rightarrow> [Navigate ''/dashboard'' None] | None \<Rightarrow> [Navigate ''/login'' None])
      else [])"

section \<open>App.jsx: the session observer\<close>

text \<open>
  Modelled from the spec: the answer of the session client's get-current-session operation
  (the client handle is built in \<^verbatim>\<open>config/supabase\<close>, which is not among the sources).
  Section 6 gives it as session-or-absent; a failed fetch carries an error and no session.
  The source reads only \<^verbatim>\<open>data.session\<close> of it.
\<close>

datatype getSession_response =
    Session_present session
  | Session_absent
  | Session_failed auth_error

definition data_session :: "getSession_response \<Rightarrow> session option" where
  "data_session r =
     (case r of Session_present s \<Rightarrow> Some s | Session_absent \<Rightarrow> None | Session_failed e \<Rightarrow> None)"

text \<open>\<^verbatim>\<open>session?.user ?? null\<close>\<close>

definition session_user_or_null :: "session option \<Rightarrow> user option" where
  "session_user_or_null s = (case s of None \<Rightarrow> None | Some x \<Rightarrow> session_user x)"

text \<open>
  The whole application: the \<^verbatim>\<open>user\<close> state of \<^verbatim>\<open>App\<close>, the states of the three views,
  whether the callback of \<^verbatim>\<open>App\<close> is registered with the client, whether the promise of
  the initial \<^verbatim>\<open>getSession\<close> is still open, and the calls made so far.
\<close>

record world =
  app_user :: "user option"
  login_form :: login_state
  register_form :: register_state
  dashboard :: dashboard_state
  listener_registered :: bool
  getSession_pending :: bool
  trace :: "effect list"

text \<open>
  \<^verbatim>\<open>App\<close> after mounting: \<^verbatim>\<open>useState(null)\<close>, and the first effect has asked for the
  session and registered its callback.
\<close>

definition App_mount :: world where
  "App_mount =
     \<lparr>app_user = None,
      login_form = Login_initial,
      register_form = Register_initial,
      dashboard = Dashboard_initial,
      listener_registered = True,
      getSession_pending = True,
      trace = [Call_getSession, Call_onAuthStateChange]\<rparr>"

text \<open>The \<^verbatim>\<open>then\<close> callback of the initial \<^verbatim>\<open>getSession\<close>.\<close>

definition App_getSession_then :: "getSession_response \<Rightarrow> world \<Rightarrow> world" where
  "App_getSession_then r w = w\<lparr>app_user := session_user_or_null (data_session r)\<rparr>"

text \<open>The callback given to \<^verbatim>\<open>onAuthStateChange\<close>; it ignores the event name.\<close>

definition App_onAuthStateChange_callback :: "string \<Rightarrow> session option \<Rightarrow> world \<Rightarrow> world" where
  "App_onAuthStateChange_callback event s w = w\<lparr>app_user := session_user_or_null s\<rparr>"

text \<open>
  \<^verbatim>\<open>handleLogin\<close> and \<^verbatim>\<open>handleLogout\<close> of \<^verbatim>\<open>App\<close> write the user state, and are handed
  to \<^verbatim>\<open>Login\<close> and \<^verbatim>\<open>Dashboard\<close> as props; neither component reads its props, so no
  event below runs them.
\<close>

definition App_handleLogin :: "user \<Rightarrow> world \<Rightarrow> world" where
  "App_handleLogin username w = w\<lparr>app_user := Some username\<rparr>"

definition App_handleLogout :: "world \<Rightarrow> world" where
  "App_handleLogout w = w\<lparr>app_user := None\<rparr>"

text \<open>
  Modelled from the spec: the subscribe-to-auth-changes contract of the session client
  (section 6: the subscription hands back an unsubscribe handle; section 4.1: each
  notification invokes the registered callback). The client calls the callback while it is
  registered, and unsubscribing removes it.
\<close>

definition auth_emit :: "string \<Rightarrow> session option \<Rightarrow> world \<Rightarrow> world" where
  "auth_emit event s w =
     (if listener_registered w then App_onAuthStateChange_callback event s w else w)"

definition auth_unsubscribe :: "world \<Rightarrow> world" where
  "auth_unsubscribe w = w\<lparr>listener_registered := False\<rparr>"

text \<open>
  The cleanup returned by the first effect of \<^verbatim>\<open>App\<close>, run when \<^verbatim>\<open>App\<close> is torn down:
  \<^verbatim>\<open>() => subscription.unsubscribe()\<close>.
\<close>

definition App_cleanup :: "world \<Rightarrow> world" where
  "App_cleanup w = auth_unsubscribe (w\<lparr>trace := trace w @ [Call_unsubscribe]\<rparr>)"

section \<open>Events\<close>

text \<open>
  What can happen to the mounted application: the initial session promise settles, the
  client emits an auth-state notification, a form field changes, a form is submitted (with
  the answers its awaited calls get), the dashboard's mount effect gets its answer, the
  sign-out button is clicked, one of the two links between the forms is clicked,
  \<^verbatim>\<open>App\<close> is torn down. \<^verbatim>\<open>e.preventDefault()\<close> of the submit handlers acts on the
  browser's event only and has no counterpart here.
\<close>

datatype event =
    Ev_getSession_settled "getSession_response promise"
  | Ev_auth_state_change string "session option"
  | Ev_register_change string string
  | Ev_register_submit "signUp_response promise" "insert_response promise"
  | Ev_login_email string
  | Ev_login_password string
  | Ev_login_submit "signIn_response promise"
  | Ev_dashboard_mounted "getUser_response promise"
  | Ev_logout_click "signOut_response promise"
  | Ev_login_register_link
  | Ev_register_login_link
  | Ev_app_unmount

fun step :: "world \<Rightarrow> event \<Rightarrow> world" where
  "step w (Ev_getSession_settled p) =
     (if getSession_pending w then
        (case p of
           Resolved r \<Rightarrow> App_getSession_then r (w\<lparr>getSession_pending := False\<rparr>)
         | Rejected err \<Rightarrow> w\<lparr>getSession_pending := False\<rparr>)
      else w)"
| "step w (Ev_auth_state_change event s) = auth_emit event s w"
| "step w (Ev_register_change name val) =
     w\<lparr>register_form := handleChange name val (register_form w)\<rparr>"
| "step w (Ev_register_submit p q) =
     (case Register_handleSubmit (register_form w) p q of
        (st, effs) \<Rightarrow> w\<lparr>register_form := st, trace := trace w @ effs\<rparr>)"
| "step w (Ev_login_email v) = w\<lparr>login_form := Login_setEmail v (login_form w)\<rparr>"
| "step w (Ev_login_password v) = w\<lparr>login_form := Login_setPassword v (login_form w)\<rparr>"
| "step w (Ev_login_submit p) =
     (case Login_handleSubmit (login_form w) p of
        (st, effs) \<Rightarrow> w\<lparr>login_form := st, trace := trace w @ effs\<rparr>)"
| "step w (Ev_dashboard_mounted p) =
     (case Dashboard_getUser (dashboard w) p of
        (st, effs) \<Rightarrow> w\<lparr>dashboard := st, trace := trace w @ effs\<rparr>)"
| "step w (Ev_logout_click p) = w\<lparr>trace := trace w @ Dashboard_handleLogout p\<rparr>"
| "step w Ev_login_register_link = w\<lparr>trace := trace w @ Login_register_link\<rparr>"
| "step w Ev_register_login_link = w\<lparr>trace := trace w @ Register_login_link\<rparr>"
| "step w Ev_app_unmount = App_cleanup w"

fun run :: "world \<Rightarrow> event list \<Rightarrow> world" where
  "run w [] = w"
| "run w (e # es) = run (step w e) es"

definition notify :: "string \<times> session option \<Rightarrow> event" where
  "notify n = Ev_auth_state_change (fst n) (snd n)"

definition is_notification :: "event \<Rightarrow> bool" where
  "is_notification e = (case e of Ev_auth_state_change event s \<Rightarrow> True | _ \<Rightarrow> False)"

definition is_form_handler :: "event \<Rightarrow> bool" where
  "is_form_handler e =
     (case e of
        Ev_login_submit p \<Rightarrow> True
      | Ev_register_submit p q \<Rightarrow> True
      | Ev_logout_click p \<Rightarrow> True
      | _ \<Rightarrow> False)"

text \<open>The imperative navigations among a handler's calls.\<close>

definition is_Navigate :: "effect \<Rightarrow> bool" where
  "is_Navigate eff = (case eff of Navigate path msg \<Rightarrow> True | _ \<Rightarrow> False)"

definition navigations :: "effect list \<Rightarrow> effect list" where
  "navigations effs = filter is_Navigate effs"

section \<open>Runs of events\<close>

lemma run_append: "run w (xs @ ys) = run (run w xs) ys"
  by (induction xs arbitrary: w) simp_all

lemma step_notify_registered:
  "listener_registered (step w (notify n)) = listener_registered w"
  by (simp add: notify_def auth_emit_def App_onAuthStateChange_callback_def)

lemma run_notify_registered:
  "listener_registered (run w (map notify ns)) = listener_registered w"
  by (induction ns arbitrary: w) (simp_all add: step_notify_registered)

lemma step_notify_pending:
  "getSession_pending (step w (notify n)) = getSession_pending w"
  by (simp add: notify_def auth_emit_def App_onAuthStateChange_callback_def)

lemma run_notify_pending:
  "getSession_pending (run w (map notify ns)) = getSession_pending w"
  by (induction ns arbitrary: w) (simp_all add: step_notify_pending)

lemma step_notify_writes:
  "listener_registered w \<Longrightarrow>
     app_user (step w (notify n)) = (case snd n of None \<Rightarrow> None | Some s \<Rightarrow> session_user s)"
  by (simp add: notify_def auth_emit_def App_onAuthStateChange_callback_def
        session_user_or_null_def)

lemma run_notify_last:
  assumes "listener_registered w"
  shows "app_user (run w (map notify (ns @ [n])))
           = (case snd n of None \<Rightarrow> None | Some s \<Rightarrow> session_user s)"
proof -
  have "listener_registered (run w (map notify ns))"
    using assms by (simp add: run_notify_registered)
  then have "app_user (step (run w (map notify ns)) (notify n))
               = (case snd n of None \<Rightarrow> None | Some s \<Rightarrow> session_user s)"
    by (rule step_notify_writes)
  then show ?thesis by (simp add: run_append)
qed

lemma step_keeps_unregistered:
  "\<not> listener_registered w \<Longrightarrow> \<not> listener_registered (step w e)"
  by (cases e)
     (simp_all add: auth_emit_def App_getSession_then_def App_cleanup_def auth_unsubscribe_def
        split: promise.splits prod.splits)

lemma run_keeps_unregistered:
  "\<not> listener_registered w \<Longrightarrow> \<not> listener_registered (run w es)"
  by (induction es arbitrary: w) (simp_all add: step_keeps_unregistered)

lemma form_handler_keeps_user:
  "is_form_handler e \<Longrightarrow> app_user (step w e) = app_user w"
  by (cases e) (simp_all add: is_form_handler_def split: prod.splits)

lemma settled_user_change_is_notification:
  assumes "\<not> getSession_pending w" and "app_user (step w e) \<noteq> app_user w"
  shows "is_notification e \<and> listener_registered w"
proof (cases e)
  case (Ev_auth_state_change event s)
  with assms(2) show ?thesis
    by (simp add: is_notification_def auth_emit_def split: if_splits)
next
  case (Ev_getSession_settled p)
  with assms show ?thesis by simp
qed (use assms(2) in \<open>simp_all add: App_cleanup_def auth_unsubscribe_def split: prod.splits\<close>)

section \<open>The dashboard\<close>

text \<open>
  C1. The dashboard, rendered for an authenticated user, is to fetch the profile row whose
  identifier is the user's, expect exactly one row and surface an error otherwise. Run for
  the signed-in user \<open>u1\<close>, the mount effect of the dashboard makes a single call,
  \<^verbatim>\<open>getUser\<close>, and stores the user of its answer: no row of the profiles table is
  asked for, so there is nothing to count and no error to surface.
\<close>

theorem Dashboard_mount_fetches_no_profile:
  "Dashboard_getUser Dashboard_initial
     (Resolved \<lparr>getUser_user = Some \<lparr>user_id = ''u1'', user_email = ''a@b.com''\<rparr>\<rparr>)
   = (\<lparr>dash_user = Some \<lparr>user_id = ''u1'', user_email = ''a@b.com''\<rparr>\<rparr>, [Call_getUser])"
  by (simp add: Dashboard_getUser_def Dashboard_initial_def)

section \<open>The session observer\<close>

text \<open>
  C2. For every sequence of auth-state notifications delivered to the registered observer,
  the user state after the notification at any position \<open>k\<close> has been processed is the
  user of the session carried by that notification, and the absent value when it carries
  no session; so after the whole sequence it is the payload of the last notification. The
  callback alone, on any state, writes the user of the session it is given, and the absent
  value when it is given none.
\<close>

theorem observer_last_notification_wins:
  assumes "listener_registered w" and "k < length ns"
  shows "app_user (run w (map notify (take (Suc k) ns)))
           = (case snd (ns ! k) of None \<Rightarrow> None | Some s \<Rightarrow> session_user s)
         \<and> app_user (run w (map notify ns))
           = (case snd (last ns) of None \<Rightarrow> None | Some s \<Rightarrow> session_user s)
         \<and> app_user (App_onAuthStateChange_callback event (Some s) w') = session_user s
         \<and> app_user (App_onAuthStateChange_callback event None w') = None"
proof -
  have split: "take (Suc k) ns = take k ns @ [ns ! k]"
    using assms(2) by (simp add: take_Suc_conv_app_nth)
  have at_k: "app_user (run w (map notify (take (Suc k) ns)))
                = (case snd (ns ! k) of None \<Rightarrow> None | Some s \<Rightarrow> session_user s)"
    unfolding split using assms(1) by (rule run_notify_last)
  from assms(2) have "ns \<noteq> []" by auto
  then have whole: "ns = butlast ns @ [last ns]" by simp
  have "app_user (run w (map notify (butlast ns @ [last ns])))
          = (case snd (last ns) of None \<Rightarrow> None | Some s \<Rightarrow> session_user s)"
    using assms(1) by (rule run_notify_last)
  with whole have at_end: "app_user (run w (map notify ns))
          = (case snd (last ns) of None \<Rightarrow> None | Some s \<Rightarrow> session_user s)"
    by simp
  show ?thesis
    using at_k at_end
    by (simp add: App_onAuthStateChange_callback_def session_user_or_null_def)
qed

theorem observer_last_notification_wins_witness:
  "listener_registered App_mount
   \<and> (1::nat) < length [(''SIGNED_OUT'', None),
                        (''SIGNED_IN'', Some \<lparr>session_user = Some \<lparr>user_id = ''u1'', user_email = ''a@b.com''\<rparr>\<rparr>),
                        (''SIGNED_OUT'', None)]
   \<and> app_user (run App_mount
        [Ev_auth_state_change ''SIGNED_OUT'' None,
         Ev_auth_state_change ''SIGNED_IN'' (Some \<lparr>session_user = Some \<lparr>user_id = ''u1'', user_email = ''a@b.com''\<rparr>\<rparr>)])
       = Some \<lparr>user_id = ''u1'', user_email = ''a@b.com''\<rparr>
   \<and> app_user (run App_mount
        [Ev_auth_state_change ''SIGNED_OUT'' None,
         Ev_auth_state_change ''SIGNED_IN'' (Some \<lparr>session_user = Some \<lparr>user_id = ''u1'', user_email = ''a@b.com''\<rparr>\<rparr>),
         Ev_auth_state_change ''SIGNED_OUT'' None]) = None"
  using observer_last_notification_wins [of App_mount 1
      "[(''SIGNED_OUT'', None),
        (''SIGNED_IN'', Some \<lparr>session_user = Some \<lparr>user_id = ''u1'', user_email = ''a@b.com''\<rparr>\<rparr>),
        (''SIGNED_OUT'', None)]"]
  by (simp add: App_mount_def notify_def)

section \<open>Routing\<close>

text \<open>
  C3, as stated: besides the two redirects, in all other cases the requested view is
  rendered. The root path is such a case and is not rendered: without a user it is a
  redirect to \<^verbatim>\<open>/login\<close>.
\<close>

theorem root_path_redirects_counterexample:
  "App_Routes ''/'' None = Navigate_to ''/login'' \<and> \<not> is_Render (App_Routes ''/'' None)"
  by (simp add: App_Routes_def is_Render_def)

text \<open>
  C3, amended. Routing is a function of the path and of the presence of a user only.
  Without a user \<^verbatim>\<open>/dashboard\<close> redirects to \<^verbatim>\<open>/login\<close>; with a user \<^verbatim>\<open>/login\<close> and
  \<^verbatim>\<open>/register\<close> redirect to \<^verbatim>\<open>/dashboard\<close>; the root path \<^verbatim>\<open>/\<close> always redirects, to
  \<^verbatim>\<open>/dashboard\<close> with a user and to \<^verbatim>\<open>/login\<close> without; in the remaining cases of the
  three view paths the requested view is rendered.
\<close>

theorem App_Routes_rule:
  "App_Routes ''/dashboard'' None = Navigate_to ''/login''
   \<and> App_Routes ''/login'' (Some u) = Navigate_to ''/dashboard''
   \<and> App_Routes ''/register'' (Some u) = Navigate_to ''/dashboard''
   \<and> App_Routes ''/'' None = Navigate_to ''/login''
   \<and> App_Routes ''/'' (Some u) = Navigate_to ''/dashboard''
   \<and> App_Routes ''/login'' None = Render Login_view
   \<and> App_Routes ''/register'' None = Render Register_view
   \<and> App_Routes ''/dashboard'' (Some u) = Render Dashboard_view
   \<and> App_Routes path (Some u) = App_Routes path (Some u')"
  by (simp add: App_Routes_def ProtectedRoute_def)

section \<open>Registration\<close>

text \<open>
  C4. When sign-up answers with a user and no error and the insert answers with no error,
  the submission makes exactly these calls in this order: the sign-up, one insert into
  \<^verbatim>\<open>profiles\<close> of a single row whose id is the new user's identifier and whose
  display name, email and phone are the form's, then the navigation to \<^verbatim>\<open>/login\<close>
  carrying the success message. The form ends not loading and without error text.
\<close>

theorem Register_success_order:
  "Register_handleSubmit st
      (Resolved \<lparr>signUp_user = Some u, signUp_error = None\<rparr>)
      (Resolved \<lparr>insert_error = None\<rparr>)
   = (st\<lparr>reg_loading := False, reg_error := None\<rparr>,
      [Call_signUp \<lparr>su_email = formData st ''email'', su_password = formData st ''password'',
                    su_display_name = formData st ''displayName'', su_phone = formData st ''phone''\<rparr>,
       Call_insert ''profiles''
         [\<lparr>row_id = user_id u, row_display_name = formData st ''displayName'',
           row_email = formData st ''email'', row_phone = formData st ''phone''\<rparr>],
       Navigate ''/login'' (Some registration_success_message)])"
  by (simp add: Register_handleSubmit_def Let_def)

theorem Register_success_order_witness:
  "snd (Register_handleSubmit
          (handleChange ''phone'' ''555'' (handleChange ''email'' ''a@b.com'' Register_initial))
          (Resolved \<lparr>signUp_user = Some \<lparr>user_id = ''u1'', user_email = ''a@b.com''\<rparr>,
                     signUp_error = None\<rparr>)
          (Resolved \<lparr>insert_error = None\<rparr>))
   = [Call_signUp \<lparr>su_email = Some ''a@b.com'', su_password = Some [],
                   su_display_name = Some [], su_phone = Some ''555''\<rparr>,
      Call_insert ''profiles''
        [\<lparr>row_id = ''u1'', row_display_name = Some [],
          row_email = Some ''a@b.com'', row_phone = Some ''555''\<rparr>],
      Navigate ''/login'' (Some registration_success_message)]"
  using Register_success_order
      [of "handleChange ''phone'' ''555'' (handleChange ''email'' ''a@b.com'' Register_initial)"
          "\<lparr>user_id = ''u1'', user_email = ''a@b.com''\<rparr>"]
  by (simp add: handleChange_def Register_initial_def)

text \<open>
  C5, as stated: every failed sign-up displays the returned error message. A sign-up that
  fails with the empty message sets the error text to the empty string, which is falsy, so
  the view shows no banner.
\<close>

theorem Register_empty_message_counterexample:
  "reg_error (fst (Register_handleSubmit Register_initial
                     (Resolved \<lparr>signUp_user = None, signUp_error = Some \<lparr>message = []\<rparr>\<rparr>)
                     (Resolved \<lparr>insert_error = None\<rparr>))) = Some []
   \<and> Register_error_banner
        (fst (Register_handleSubmit Register_initial
                (Resolved \<lparr>signUp_user = None, signUp_error = Some \<lparr>message = []\<rparr>\<rparr>)
                (Resolved \<lparr>insert_error = None\<rparr>))) = None"
  by (simp add: Register_handleSubmit_def Register_caught_def Register_error_banner_def Let_def)

text \<open>
  C5, amended. When the sign-up call fails, by answering with an error or by rejecting,
  the error text of the form becomes the returned message, which the banner displays when
  it is not empty, and the sign-up is the only call made: no insert is attempted and
  nothing navigates, whatever the insert would have answered.
\<close>

theorem Register_signUp_failure_stops:
  "Register_handleSubmit st (Resolved \<lparr>signUp_user = uo, signUp_error = Some e\<rparr>) q
     = (st\<lparr>reg_loading := False, reg_error := Some (message e)\<rparr>,
        [Call_signUp \<lparr>su_email = formData st ''email'', su_password = formData st ''password'',
                      su_display_name = formData st ''displayName'', su_phone = formData st ''phone''\<rparr>])
   \<and> Register_handleSubmit st (Rejected e) q
     = (st\<lparr>reg_loading := False, reg_error := Some (message e)\<rparr>,
        [Call_signUp \<lparr>su_email = formData st ''email'', su_password = formData st ''password'',
                      su_display_name = formData st ''displayName'', su_phone = formData st ''phone''\<rparr>])
   \<and> Register_error_banner
        (fst (Register_handleSubmit st (Resolved \<lparr>signUp_user = uo, signUp_error = Some e\<rparr>) q))
     = (if message e = [] then None else Some (message e))
   \<and> Register_error_banner (fst (Register_handleSubmit st (Rejected e) q))
     = (if message e = [] then None else Some (message e))"
  by (simp add: Register_handleSubmit_def Register_caught_def Register_error_banner_def Let_def)

theorem Register_signUp_failure_stops_witness:
  "snd (Register_handleSubmit Register_initial
          (Resolved \<lparr>signUp_user = None,
                     signUp_error = Some \<lparr>message = ''User already registered''\<rparr>\<rparr>)
          (Resolved \<lparr>insert_error = None\<rparr>))
     = [Call_signUp \<lparr>su_email = Some [], su_password = Some [],
                     su_display_name = Some [], su_phone = Some []\<rparr>]
   \<and> Register_error_banner
        (fst (Register_handleSubmit Register_initial
                (Resolved \<lparr>signUp_user = None,
                           signUp_error = Some \<lparr>message = ''User already registered''\<rparr>\<rparr>)
                (Resolved \<lparr>insert_error = None\<rparr>)))
     = Some ''User already registered''"
  using Register_signUp_failure_stops
      [of Register_initial None "\<lparr>message = ''User already registered''\<rparr>"
          "Resolved \<lparr>insert_error = None\<rparr>"]
  by (auto simp add: Register_initial_def)

section \<open>Login\<close>

text \<open>
  C6. A login submission whose sign-in fails (it answers with an error, or rejects) makes
  the sign-in call and shows one error toast with the returned message and a life of 3000,
  and nothing else. Whatever the sign-in answers, the handler navigates nowhere and leaves
  the user state of the application as it was, so an absent user stays absent; on success
  the sign-in is its only call. Leaving \<^verbatim>\<open>/login\<close> is the route table's reaction to the
  user written by the observer's callback.
\<close>

theorem Login_submit_never_navigates:
  "Login_handleSubmit st (Resolved \<lparr>signIn_error = Some e\<rparr>)
     = (st\<lparr>login_loading := False\<rparr>,
        [Call_signInWithPassword (login_email st) (login_password st),
         Toast_show \<lparr>severity = ''error'', summary = ''Error'', detail = message e, life = 3000\<rparr>])
   \<and> Login_handleSubmit st (Rejected e)
     = (st\<lparr>login_loading := False\<rparr>,
        [Call_signInWithPassword (login_email st) (login_password st),
         Toast_show \<lparr>severity = ''error'', summary = ''Error'', detail = message e, life = 3000\<rparr>])
   \<and> Login_handleSubmit st (Resolved \<lparr>signIn_error = None\<rparr>)
     = (st\<lparr>login_loading := False\<rparr>,
        [Call_signInWithPassword (login_email st) (login_password st)])
   \<and> navigations (snd (Login_handleSubmit st p)) = []
   \<and> app_user (step w (Ev_login_submit p)) = app_user w
   \<and> App_Routes ''/login''
        (app_user (App_onAuthStateChange_callback event (Some \<lparr>session_user = Some u\<rparr>) w))
     = Navigate_to ''/dashboard''"
  by (auto simp add: Login_handleSubmit_def Login_error_toast_def Let_def navigations_def
        is_Navigate_def App_Routes_def App_onAuthStateChange_callback_def session_user_or_null_def
      split: promise.splits option.splits prod.splits)

theorem Login_submit_never_navigates_witness:
  "trace (run App_mount
            [Ev_login_email ''a@b.com'', Ev_login_password ''wrong'',
             Ev_login_submit
               (Resolved \<lparr>signIn_error = Some \<lparr>message = ''Invalid login credentials''\<rparr>\<rparr>)])
     = [Call_getSession, Call_onAuthStateChange,
        Call_signInWithPassword ''a@b.com'' ''wrong'',
        Toast_show \<lparr>severity = ''error'', summary = ''Error'',
                    detail = ''Invalid login credentials'', life = 3000\<rparr>]
   \<and> app_user (run App_mount
            [Ev_login_email ''a@b.com'', Ev_login_password ''wrong'',
             Ev_login_submit
               (Resolved \<lparr>signIn_error = Some \<lparr>message = ''Invalid login credentials''\<rparr>\<rparr>)])
     = None"
  using Login_submit_never_navigates
      [of "\<lparr>login_email = ''a@b.com'', login_password = ''wrong'', login_loading = False\<rparr>"
          "\<lparr>message = ''Invalid login credentials''\<rparr>"
          "Resolved \<lparr>signIn_error = Some \<lparr>message = ''Invalid login credentials''\<rparr>\<rparr>"
          "step (step App_mount (Ev_login_email ''a@b.com'')) (Ev_login_password ''wrong'')"]
  by (simp add: App_mount_def Login_initial_def Login_setEmail_def Login_setPassword_def)

section \<open>Initialisation\<close>

text \<open>
  C7, as stated: if the initial session fetch fails, the resulting state is
  unauthenticated. The callback is registered in the same effect as the fetch, so a
  notification can be delivered while the fetch is open; when the fetch then rejects,
  nothing is written (the promise has no \<^verbatim>\<open>catch\<close>) and the user of that notification
  stays.
\<close>

theorem rejected_fetch_keeps_user_counterexample:
  "app_user (run App_mount
      [Ev_auth_state_change ''INITIAL_SESSION''
         (Some \<lparr>session_user = Some \<lparr>user_id = ''u1'', user_email = ''a@b.com''\<rparr>\<rparr>),
       Ev_getSession_settled (Rejected \<lparr>message = ''Failed to fetch''\<rparr>)])
   = Some \<lparr>user_id = ''u1'', user_email = ''a@b.com''\<rparr>"
  by (simp add: App_mount_def auth_emit_def App_onAuthStateChange_callback_def
        session_user_or_null_def)

text \<open>
  C7, amended. When the initial session promise resolves, whatever notifications came
  before, the user state becomes the user of the fetched session, and the absent value
  when there is no session or when the fetch answers with an error. When the promise
  rejects, nothing is written: the user state is absent on the freshly mounted
  application and after a last notification without session, and it is the user of the
  last notification's session otherwise.
\<close>

theorem App_initial_session:
  "app_user (step (run App_mount (map notify ns))
               (Ev_getSession_settled (Resolved (Session_present s)))) = session_user s
   \<and> app_user (step (run App_mount (map notify ns))
               (Ev_getSession_settled (Resolved Session_absent))) = None
   \<and> app_user (step (run App_mount (map notify ns))
               (Ev_getSession_settled (Resolved (Session_failed e)))) = None
   \<and> app_user (step App_mount (Ev_getSession_settled (Rejected e))) = None
   \<and> app_user (step (run App_mount (map notify (ns @ [(event, None)])))
               (Ev_getSession_settled (Rejected e))) = None
   \<and> app_user (step (run App_mount (map notify (ns @ [(event, Some s)])))
               (Ev_getSession_settled (Rejected e))) = session_user s"
proof -
  have pend: "getSession_pending (run App_mount (map notify ms))" for ms
    by (simp add: run_notify_pending App_mount_def)
  have reg: "listener_registered App_mount"
    by (simp add: App_mount_def)
  have last_none: "app_user (run App_mount (map notify (ns @ [(event, None)]))) = None"
    using run_notify_last [OF reg, of ns "(event, None)"] by simp
  have last_some: "app_user (run App_mount (map notify (ns @ [(event, Some s)]))) = session_user s"
    using run_notify_last [OF reg, of ns "(event, Some s)"] by simp
  have fresh: "app_user (step App_mount (Ev_getSession_settled (Rejected e))) = None"
    by (simp add: App_mount_def)
  show ?thesis
    using pend [of ns] pend [of "ns @ [(event, None)]"] pend [of "ns @ [(event, Some s)]"]
      last_none last_some fresh
    by (simp add: App_getSession_then_def data_session_def session_user_or_null_def)
qed

section \<open>Writers of the user state\<close>

text \<open>
  C8. No form handler writes the user state of the application: a login submission, a
  registration submission and a click on sign-out each leave it as it was, and so does any
  sequence of them. Once the initial session promise has settled, every event that changes
  the user state is an auth-state notification delivered to the registered subscription,
  and the change is the write of the subscription callback.
\<close>

theorem subscription_sole_writer:
  "(is_form_handler e \<longrightarrow> app_user (step w e) = app_user w)
   \<and> (list_all is_form_handler es \<longrightarrow> app_user (run w es) = app_user w)
   \<and> (\<not> getSession_pending w \<and> app_user (step w e) \<noteq> app_user w
        \<longrightarrow> listener_registered w
            \<and> (\<exists>event s. e = Ev_auth_state_change event s
                  \<and> step w e = App_onAuthStateChange_callback event s w))"
proof (intro conjI impI)
  assume "is_form_handler e"
  then show "app_user (step w e) = app_user w" by (rule form_handler_keeps_user)
next
  assume "list_all is_form_handler es"
  then show "app_user (run w es) = app_user w"
    by (induction es arbitrary: w) (simp_all add: form_handler_keeps_user)
next
  assume a: "\<not> getSession_pending w \<and> app_user (step w e) \<noteq> app_user w"
  then show "listener_registered w"
    using settled_user_change_is_notification by blast
next
  assume a: "\<not> getSession_pending w \<and> app_user (step w e) \<noteq> app_user w"
  then have n: "is_notification e" and r: "listener_registered w"
    using settled_user_change_is_notification by blast+
  from n obtain event s where e: "e = Ev_auth_state_change event s"
    by (cases e) (simp_all add: is_notification_def)
  with r have "step w e = App_onAuthStateChange_callback event s w"
    by (simp add: auth_emit_def)
  with e show "\<exists>event s. e = Ev_auth_state_change event s
                 \<and> step w e = App_onAuthStateChange_callback event s w"
    by blast
qed

theorem subscription_sole_writer_witness:
  "is_form_handler (Ev_logout_click (Resolved \<lparr>signOut_error = None\<rparr>))
   \<and> app_user (step App_mount (Ev_logout_click (Resolved \<lparr>signOut_error = None\<rparr>))) = None
   \<and> list_all is_form_handler
        [Ev_login_submit (Resolved \<lparr>signIn_error = None\<rparr>),
         Ev_register_submit
           (Resolved \<lparr>signUp_user = Some \<lparr>user_id = ''u1'', user_email = ''a@b.com''\<rparr>,
                      signUp_error = None\<rparr>)
           (Resolved \<lparr>insert_error = None\<rparr>),
         Ev_logout_click (Resolved \<lparr>signOut_error = None\<rparr>)]
   \<and> app_user (run App_mount
        [Ev_login_submit (Resolved \<lparr>signIn_error = None\<rparr>),
         Ev_register_submit
           (Resolved \<lparr>signUp_user = Some \<lparr>user_id = ''u1'', user_email = ''a@b.com''\<rparr>,
                      signUp_error = None\<rparr>)
           (Resolved \<lparr>insert_error = None\<rparr>),
         Ev_logout_click (Resolved \<lparr>signOut_error = None\<rparr>)]) = None
   \<and> \<not> getSession_pending (step App_mount (Ev_getSession_settled (Resolved Session_absent)))
   \<and> app_user (step (step App_mount (Ev_getSession_settled (Resolved Session_absent)))
               (Ev_auth_state_change ''SIGNED_IN''
                  (Some \<lparr>session_user = Some \<lparr>user_id = ''u1'', user_email = ''a@b.com''\<rparr>\<rparr>)))
       \<noteq> app_user (step App_mount (Ev_getSession_settled (Resolved Session_absent)))
   \<and> listener_registered (step App_mount (Ev_getSession_settled (Resolved Session_absent)))"
  using subscription_sole_writer
      [of "Ev_logout_click (Resolved \<lparr>signOut_error = None\<rparr>)" App_mount
          "[Ev_login_submit (Resolved \<lparr>signIn_error = None\<rparr>),
            Ev_register_submit
              (Resolved \<lparr>signUp_user = Some \<lparr>user_id = ''u1'', user_email = ''a@b.com''\<rparr>,
                         signUp_error = None\<rparr>)
              (Resolved \<lparr>insert_error = None\<rparr>),
            Ev_logout_click (Resolved \<lparr>signOut_error = None\<rparr>)]"]
    subscription_sole_writer
      [of "Ev_auth_state_change ''SIGNED_IN''
             (Some \<lparr>session_user = Some \<lparr>user_id = ''u1'', user_email = ''a@b.com''\<rparr>\<rparr>)"
          "step App_mount (Ev_getSession_settled (Resolved Session_absent))" "[]"]
  by (simp add: is_form_handler_def App_mount_def App_getSession_then_def data_session_def
        session_user_or_null_def auth_emit_def App_onAuthStateChange_callback_def)

section \<open>Teardown\<close>

text \<open>
  C9. Tearing \<^verbatim>\<open>App\<close> down runs the cleanup of its first effect, which calls
  \<^verbatim>\<open>unsubscribe\<close> on the subscription in every state, without any condition, and writes
  no user state itself. From then on, whatever else happens, an auth-state notification
  changes nothing: no write to the user state comes from that subscription any more.
\<close>

theorem teardown_stops_updates:
  "step w Ev_app_unmount = App_cleanup w
   \<and> listener_registered (App_cleanup w) = False
   \<and> trace (App_cleanup w) = trace w @ [Call_unsubscribe]
   \<and> app_user (App_cleanup w) = app_user w
   \<and> step (run (App_cleanup w) es) (Ev_auth_state_change event s) = run (App_cleanup w) es"
proof -
  have "\<not> listener_registered (App_cleanup w)"
    by (simp add: App_cleanup_def auth_unsubscribe_def)
  then have "\<not> listener_registered (run (App_cleanup w) es)"
    by (rule run_keeps_unregistered)
  then have "step (run (App_cleanup w) es) (Ev_auth_state_change event s) = run (App_cleanup w) es"
    by (simp add: auth_emit_def)
  then show ?thesis
    by (simp add: App_cleanup_def auth_unsubscribe_def)
qed

section \<open>The registration form\<close>

text \<open>
  C10. A change event naming field \<open>n\<close> with value \<open>v\<close> gives a form object that holds
  \<open>v\<close> at \<open>n\<close> and the previous content at every other property; the loading flag and
  the error text are untouched. So a change to one of displayName, email, password and
  phone never alters the other three.
\<close>

theorem handleChange_frame:
  "formData (handleChange n v st) n = Some v
   \<and> (\<forall>m. m \<noteq> n \<longrightarrow> formData (handleChange n v st) m = formData st m)
   \<and> reg_loading (handleChange n v st) = reg_loading st
   \<and> reg_error (handleChange n v st) = reg_error st"
  by (simp add: handleChange_def)

theorem handleChange_frame_witness:
  "formData (handleChange ''email'' ''a@b.com'' Register_initial) ''email'' = Some ''a@b.com''
   \<and> ''phone'' \<noteq> ''email''
   \<and> formData (handleChange ''email'' ''a@b.com'' Register_initial) ''phone'' = Some []
   \<and> formData (handleChange ''email'' ''a@b.com'' Register_initial) ''password'' = Some []
   \<and> formData (handleChange ''email'' ''a@b.com'' Register_initial) ''displayName'' = Some []"
  using handleChange_frame [of "''email''" "''a@b.com''" Register_initial]
  by (simp add: Register_initial_def)

end
